theory Spec2Isabelle
  imports Complex_Main "HOL-Library.Sublist" "HOL-Library.Product_Lexorder" "HOL-Library.Multiset"
begin

section \<open>Prospect scoring (magic\_target.py): data model\<close>

text \<open>
  Text is modelled as \<^typ>\<open>string\<close>, a list of 8-bit characters, and every character
  class (\<open>\s\<close>, \<open>\d\<close>, \<open>\w\<close>, \<open>upper\<close>, \<open>lower\<close>) is its ASCII part: the model follows the
  Python source on ASCII text. Characters beyond ASCII are kept as they are and belong
  to no class; the en dash the money pattern also accepts as a range sign is therefore
  not a character of the model.

  Python integers are \<^typ>\<open>int\<close>. The amounts \<open>parse_money_range_usd\<close> computes are Python
  floats; they are modelled as exact rationals (\<^typ>\<open>rat\<close>), so the binary rounding of
  \<open>float()\<close> and of the multiplication by the magnitude is left out.
\<close>

datatype error = ValueError | KeyError | AttributeError | TypeError | RequestException

text \<open>The values a normalizer may be handed: a cell of the table is a \<open>str\<close>; \<open>None\<close>
  is what \<open>row.get\<close> gives for an absent column; \<open>int\<close> and \<open>bool\<close> exercise the
  non-string branches.\<close>

datatype pyval = PNone | PStr string | PInt int | PBool bool

definition ebind :: "error + 'a \<Rightarrow> ('a \<Rightarrow> error + 'b) \<Rightarrow> error + 'b" where
  "ebind m f = (case m of Inl e \<Rightarrow> Inl e | Inr v \<Rightarrow> f v)"

subsection \<open>Character classes and string methods\<close>

definition is_digit :: "char \<Rightarrow> bool" where
  "is_digit c = (c \<in> set ''0123456789'')"

definition is_space :: "char \<Rightarrow> bool" where
  "is_space c = (c \<in> set [CHR 0x09, CHR 0x0A, CHR 0x0B, CHR 0x0C, CHR 0x0D,
                           CHR 0x1C, CHR 0x1D, CHR 0x1E, CHR 0x1F, CHR 0x20])"

definition lower_letters :: string where
  "lower_letters = ''abcdefghijklmnopqrstuvwxyz''"

definition upper_letters :: string where
  "upper_letters = ''ABCDEFGHIJKLMNOPQRSTUVWXYZ''"

definition is_word :: "char \<Rightarrow> bool" where
  "is_word c = (is_digit c \<or> c \<in> set lower_letters \<or> c \<in> set upper_letters \<or> c = CHR ''_'')"

definition upper_char :: "char \<Rightarrow> char" where
  "upper_char c = (case map_of (zip lower_letters upper_letters) c of Some u \<Rightarrow> u | None \<Rightarrow> c)"

definition lower_char :: "char \<Rightarrow> char" where
  "lower_char c = (case map_of (zip upper_letters lower_letters) c of Some l \<Rightarrow> l | None \<Rightarrow> c)"

definition upper :: "string \<Rightarrow> string" where
  "upper s = map upper_char s"

definition lower :: "string \<Rightarrow> string" where
  "lower s = map lower_char s"

definition strip :: "string \<Rightarrow> string" where
  "strip s = rev (dropWhile is_space (rev (dropWhile is_space s)))"

definition startswith :: "string \<Rightarrow> string \<Rightarrow> bool" where
  "startswith s p = (take (length p) s = p)"

definition endswith :: "string \<Rightarrow> string \<Rightarrow> bool" where
  "endswith s p = (length p \<le> length s \<and> drop (length s - length p) s = p)"

text \<open>\<open>sub in s\<close>.\<close>

fun contains :: "string \<Rightarrow> string \<Rightarrow> bool" where
  "contains sub [] = (sub = [])"
| "contains sub (c # cs) = (startswith (c # cs) sub \<or> contains sub cs)"

text \<open>\<open>s.replace(old, new)\<close> for a non-empty \<open>old\<close>: occurrences are replaced from the
  left and do not overlap. The counter says how many characters of a replaced occurrence
  are still to be skipped.\<close>

fun replace_from :: "string \<Rightarrow> string \<Rightarrow> nat \<Rightarrow> string \<Rightarrow> string" where
  "replace_from old new k [] = []"
| "replace_from old new (Suc k) (c # cs) = replace_from old new k cs"
| "replace_from old new 0 (c # cs) =
     (if startswith (c # cs) old then new @ replace_from old new (length old - 1) cs
      else c # replace_from old new 0 cs)"

definition replace :: "string \<Rightarrow> string \<Rightarrow> string \<Rightarrow> string" where
  "replace s old new = replace_from old new 0 s"

subsection \<open>Numbers read from text\<close>

definition digit_val :: "char \<Rightarrow> nat" where
  "digit_val c = of_char c - 48"

definition digits_val :: "string \<Rightarrow> nat" where
  "digits_val s = foldl (\<lambda>a c. 10 * a + digit_val c) 0 s"

text \<open>\<open>int(s)\<close> on the strings the parsers pass to it: each is made of characters
  matched by \<open>\d\<close>, and the empty one raises ValueError. (Signs, blanks and underscores,
  which \<open>int\<close> also reads, cannot occur in them.)\<close>

definition py_int :: "string \<Rightarrow> error + int" where
  "py_int s = (if s \<noteq> [] \<and> list_all is_digit s then Inr (int (digits_val s)) else Inl ValueError)"

text \<open>\<open>float(s)\<close> on plain decimal text: digits, optionally a point and digits, at least
  one digit in all. Anything else raises ValueError. (Exponents, signs and the words
  \<open>inf\<close> and \<open>nan\<close>, which \<open>float\<close> also reads, cannot occur in a token of \<open>num\<close>: it is
  made of digits and points followed by K, M or B.)\<close>

definition py_float :: "string \<Rightarrow> error + rat" where
  "py_float s =
     (let ip = takeWhile is_digit s; r = dropWhile is_digit s in
      case r of
        [] \<Rightarrow> if ip = [] then Inl ValueError else Inr (of_nat (digits_val ip))
      | c # fp \<Rightarrow>
          if c = CHR ''.'' \<and> list_all is_digit fp \<and> (ip \<noteq> [] \<or> fp \<noteq> [])
          then Inr (of_nat (digits_val (ip @ fp)) / 10 ^ length fp)
          else Inl ValueError)"

text \<open>\<open>str(n)\<close> for an integer.\<close>

fun nat_digits :: "nat \<Rightarrow> string" where
  "nat_digits n = (if n < 10 then [char_of (48 + n)] else nat_digits (n div 10) @ [char_of (48 + n mod 10)])"

definition py_str :: "pyval \<Rightarrow> string" where
  "py_str v = (case v of
       PStr s \<Rightarrow> s
     | PInt i \<Rightarrow> (if i < 0 then CHR ''-'' # nat_digits (nat (- i)) else nat_digits (nat i))
     | PBool b \<Rightarrow> (if b then ''True'' else ''False'')
     | PNone \<Rightarrow> ''None'')"

section \<open>Field normalizers\<close>

subsection \<open>Employee range\<close>

text \<open>\<open>re.sub(r"\D", "", x)\<close>.\<close>

definition digits_only :: "string \<Rightarrow> string" where
  "digits_only x = filter is_digit x"

text \<open>\<open>re.match(r"^\s*(\d+)\s*-\s*(\d+)\s*$", x)\<close>, giving the two groups. Neighbouring
  parts of the pattern accept disjoint characters, so the greedy reading is the only one.\<close>

definition match_emp_range :: "string \<Rightarrow> (string \<times> string) option" where
  "match_emp_range x =
     (let s1 = dropWhile is_space x;
          g1 = takeWhile is_digit s1;
          s2 = dropWhile is_space (dropWhile is_digit s1)
      in if g1 = [] then None
         else case s2 of
           [] \<Rightarrow> None
         | c # s3 \<Rightarrow>
             if c \<noteq> CHR ''-'' then None
             else let s4 = dropWhile is_space s3;
                      g2 = takeWhile is_digit s4;
                      s5 = dropWhile is_space (dropWhile is_digit s4)
                  in if g2 = [] \<or> s5 \<noteq> [] then None else Some (g1, g2))"

text \<open>The function after \<open>s = str(s)\<close>.\<close>

definition parse_emp_text :: "string \<Rightarrow> error + (int option \<times> int option)" where
  "parse_emp_text s =
     (let x = replace (strip (lower (replace s '','' ''''))) '' to '' ''-''
      in if endswith x ''+'' then
           (case py_int (digits_only x) of
              Inr base \<Rightarrow> Inr (Some base, None)
            | Inl e \<Rightarrow> Inr (None, None))
         else (case match_emp_range x of
           Some (a, b) \<Rightarrow>
             ebind (py_int a) (\<lambda>lo. ebind (py_int b) (\<lambda>hi. Inr (Some lo, Some hi)))
         | None \<Rightarrow>
             (case py_int (digits_only x) of
                Inr n \<Rightarrow> Inr (Some n, Some n)
              | Inl e \<Rightarrow> Inr (None, None))))"

definition parse_emp_range :: "pyval \<Rightarrow> error + (int option \<times> int option)" where
  "parse_emp_range v =
     (case v of
        PNone \<Rightarrow> Inr (None, None)
      | _ \<Rightarrow> parse_emp_text (py_str v))"

subsection \<open>Truthy coercion\<close>

definition yn :: "pyval \<Rightarrow> error + bool" where
  "yn v =
     (case v of
        PStr s \<Rightarrow>
          (let t = lower (strip s) in
           if t \<in> set [''yes'', ''y'', ''true'', ''t'', ''1'', ''actively hiring'', ''hiring''] then Inr True
           else if t \<in> set [''no'', ''n'', ''false'', ''f'', ''0''] then Inr False
           else Inr False)
      | PInt i \<Rightarrow> Inr (i \<noteq> 0)
      | PBool b \<Rightarrow> Inr b
      | PNone \<Rightarrow> Inr False)"

subsection \<open>Money range\<close>

definition is_numch :: "char \<Rightarrow> bool" where
  "is_numch c = (is_digit c \<or> c = CHR ''.'')"

definition is_magnitude :: "char \<Rightarrow> bool" where
  "is_magnitude c = (c \<in> set ''KMB'')"

text \<open>\<open>$\<close> of a pattern: the end of the text, or just before a last newline.\<close>

definition at_end :: "string \<Rightarrow> bool" where
  "at_end r = (r = [] \<or> r = [CHR 0x0A])"

definition scale :: "char option \<Rightarrow> rat \<Rightarrow> rat" where
  "scale suf v =
     (if suf = Some CHR ''K'' then v * 10 ^ 3
      else if suf = Some CHR ''M'' then v * 10 ^ 6
      else if suf = Some CHR ''B'' then v * 10 ^ 9
      else v)"

text \<open>The inner \<open>num(tok)\<close>: \<open>re.search(r"(\d+(\.\d+)?)\s*([KMB])?", tok)\<close> starts at the
  first digit, takes the digits, a fraction when a point and a digit follow, blanks, and
  a magnitude letter when one is next. Without a digit the search fails and \<open>float(tok)\<close>
  is tried under \<open>try\<close>.\<close>

definition num :: "string \<Rightarrow> error + rat option" where
  "num tok =
     (let s1 = dropWhile (\<lambda>c. \<not> is_digit c) tok in
      if s1 = [] then
        (case py_float tok of Inr v \<Rightarrow> Inr (Some v) | Inl e \<Rightarrow> Inr None)
      else
        let ip = takeWhile is_digit s1;
            r1 = dropWhile is_digit s1;
            frac = (case r1 of
                      [] \<Rightarrow> []
                    | c # r \<Rightarrow> if c = CHR ''.'' then takeWhile is_digit r else []);
            g1 = (if frac = [] then ip else ip @ ''.'' @ frac);
            r2 = (if frac = [] then r1 else drop (Suc (length frac)) r1);
            r3 = dropWhile is_space r2;
            suf = (case r3 of [] \<Rightarrow> None | c # r \<Rightarrow> if is_magnitude c then Some c else None)
        in ebind (py_float g1) (\<lambda>v. Inr (Some (scale suf v))))"

text \<open>\<open>\$?([\d\.]+)\s*([KMB])\<close> at the head of a text: the two groups and the rest.\<close>

definition amount_unit :: "string \<Rightarrow> (string \<times> char \<times> string) option" where
  "amount_unit s =
     (let s1 = (case s of [] \<Rightarrow> s | c # r \<Rightarrow> if c = CHR ''$'' then r else s);
          n = takeWhile is_numch s1;
          s2 = dropWhile is_space (dropWhile is_numch s1)
      in if n = [] then None
         else (case s2 of
           [] \<Rightarrow> None
         | u # r \<Rightarrow> if is_magnitude u then Some (n, u, r) else None))"

text \<open>\<open>^\$?([\d\.]+)\s*([KMB])\s*[-]\s*\$?([\d\.]+)\s*([KMB])$\<close>.\<close>

definition match_money_pair :: "string \<Rightarrow> (string \<times> char \<times> string \<times> char) option" where
  "match_money_pair x =
     (case amount_unit x of
        None \<Rightarrow> None
      | Some (n1, u1, r) \<Rightarrow>
          (case dropWhile is_space r of
             [] \<Rightarrow> None
           | d # r2 \<Rightarrow>
               if d \<noteq> CHR ''-'' then None
               else (case amount_unit (dropWhile is_space r2) of
                 None \<Rightarrow> None
               | Some (n2, u2, r3) \<Rightarrow> if at_end r3 then Some (n1, u1, n2, u2) else None)))"

text \<open>\<open>^\$?([\d\.]+)\s*([KMB])\+?$\<close>.\<close>

definition match_money_plus :: "string \<Rightarrow> (string \<times> char) option" where
  "match_money_plus x =
     (case amount_unit x of
        None \<Rightarrow> None
      | Some (n, u, r) \<Rightarrow>
          let r1 = (case r of [] \<Rightarrow> r | c # t \<Rightarrow> if c = CHR ''+'' then t else r)
          in if at_end r1 then Some (n, u) else None)"

lemma dropWhile_suffix_length:
  assumes "dropWhile P (dropWhile Q xs) = u # r"
  shows "length r < length xs"
proof -
  have "length (dropWhile P (dropWhile Q xs)) \<le> length xs"
    by (meson length_dropWhile_le order_trans)
  with assms show ?thesis by simp
qed

text \<open>\<open>re.findall(r"([\d\.]+)\s*([KMB])", x)\<close>: the matches from left to right, the
  search going on after each match, or one character further where none starts.\<close>

function findall_money :: "string \<Rightarrow> (string \<times> char) list" where
  "findall_money [] = []"
| "findall_money (c # cs) =
     (if is_numch c then
        (case dropWhile is_space (dropWhile is_numch (c # cs)) of
           [] \<Rightarrow> findall_money cs
         | u # r \<Rightarrow>
             if is_magnitude u then (takeWhile is_numch (c # cs), u) # findall_money r
             else findall_money cs)
      else findall_money cs)"
  by pat_completeness auto

termination findall_money
proof (relation "measure length")
  show "wf (measure length)" by simp
next
  fix c :: char and cs x21 x22
  assume "dropWhile is_space (dropWhile is_numch (c # cs)) = x21 # x22"
  then have "length x22 < length (c # cs)" by (rule dropWhile_suffix_length)
  then show "(x22, c # cs) \<in> measure length" by simp
qed auto

fun collect_vals :: "(string \<times> char) list \<Rightarrow> error + rat list" where
  "collect_vals [] = Inr []"
| "collect_vals ((n, u) # rest) =
     ebind (num (n @ [u])) (\<lambda>v. ebind (collect_vals rest) (\<lambda>vs.
       Inr (case v of None \<Rightarrow> vs | Some a \<Rightarrow> a # vs)))"

text \<open>\<open>min\<close> and \<open>max\<close> of a list raise ValueError on the empty list.\<close>

fun py_min :: "rat list \<Rightarrow> error + rat" where
  "py_min [] = Inl ValueError"
| "py_min (v # vs) = Inr (foldl min v vs)"

fun py_max :: "rat list \<Rightarrow> error + rat" where
  "py_max [] = Inl ValueError"
| "py_max (v # vs) = Inr (foldl max v vs)"

definition parse_money_range_usd :: "pyval \<Rightarrow> error + (rat option \<times> rat option)" where
  "parse_money_range_usd v =
     (case v of
        PStr s \<Rightarrow>
          if strip s = [] then Inr (None, None)
          else
            let x = replace (strip (upper (replace s '','' ''''))) '' TO '' ''-'' in
            if contains ''UNKNOWN'' x \<or> x \<in> set [''-'', ''N/A'', ''NA''] then Inr (None, None)
            else (case match_money_pair x of
              Some (n1, u1, n2, u2) \<Rightarrow>
                ebind (num (n1 @ [u1])) (\<lambda>a. ebind (num (n2 @ [u2])) (\<lambda>b. Inr (a, b)))
            | None \<Rightarrow>
              (case match_money_plus x of
                 Some (n, u) \<Rightarrow> ebind (num (n @ [u])) (\<lambda>a. Inr (a, None))
               | None \<Rightarrow>
                   let anynum = findall_money x in
                   if anynum \<noteq> [] then
                     ebind (collect_vals anynum) (\<lambda>vals.
                       if vals \<noteq> [] then
                         ebind (py_min vals) (\<lambda>lo. ebind (py_max vals) (\<lambda>hi. Inr (Some lo, Some hi)))
                       else Inr (None, None))
                   else Inr (None, None)))
      | _ \<Rightarrow> Inr (None, None))"

subsection \<open>Months since a date\<close>

text \<open>\<open>datetime.strptime\<close> turns a format into a pattern, directive by directive, matches
  it at the head of the text without regard to case, and raises ValueError when nothing
  matches, when text remains after the match, or when the fields are no calendar date.
  The seven formats of \<open>months_since\<close> use the directives below; a blank in a format
  stands for \<open>\s+\<close>.\<close>

datatype directive = DY | Dm | Dd | Db | DB | DLit char | DSpace

record date_fields =
  f_year :: nat
  f_month :: nat
  f_day :: nat

definition dir_of :: "char \<Rightarrow> directive" where
  "dir_of c =
     (if c = CHR ''Y'' then DY else if c = CHR ''m'' then Dm else if c = CHR ''d'' then Dd
      else if c = CHR ''b'' then Db else if c = CHR ''B'' then DB else DLit c)"

fun compile_fmt :: "string \<Rightarrow> directive list" where
  "compile_fmt [] = []"
| "compile_fmt [a] = (if is_space a then [DSpace] else [DLit a])"
| "compile_fmt (a # b # r) =
     (if a = CHR ''%'' then dir_of b # compile_fmt r
      else if is_space a then (if is_space b then compile_fmt (b # r) else DSpace # compile_fmt (b # r))
      else DLit a # compile_fmt (b # r))"

definition in_range :: "char \<Rightarrow> char \<Rightarrow> char \<Rightarrow> bool" where
  "in_range lo hi c = ((of_char lo :: nat) \<le> of_char c \<and> (of_char c :: nat) \<le> of_char hi)"

text \<open>One alternative of a numeric directive: two characters, or one.\<close>

definition two_chars :: "(char \<Rightarrow> bool) \<Rightarrow> (char \<Rightarrow> bool) \<Rightarrow> string \<Rightarrow> (nat \<times> string) option" where
  "two_chars p q s =
     (case s of
        a # b # r \<Rightarrow> if p a \<and> q b then Some (10 * digit_val a + digit_val b, r) else None
      | _ \<Rightarrow> None)"

definition one_char :: "(char \<Rightarrow> bool) \<Rightarrow> string \<Rightarrow> (nat \<times> string) option" where
  "one_char p s = (case s of a # r \<Rightarrow> if p a then Some (digit_val a, r) else None | [] \<Rightarrow> None)"

text \<open>\<open>%d\<close> is \<open>3[0-1]|[1-2]\d|0[1-9]|[1-9]| [1-9]\<close>; the last alternative reads a blank
  and a digit, and \<open>int\<close> of that text is the digit.\<close>

definition day_alts :: "string \<Rightarrow> (nat \<times> string) list" where
  "day_alts s = List.map_filter (\<lambda>p. p s)
     [two_chars (\<lambda>c. c = CHR ''3'') (in_range CHR ''0'' CHR ''1''),
      two_chars (in_range CHR ''1'' CHR ''2'') is_digit,
      two_chars (\<lambda>c. c = CHR ''0'') (in_range CHR ''1'' CHR ''9''),
      one_char (in_range CHR ''1'' CHR ''9''),
      (\<lambda>t. case t of a # r \<Rightarrow> if a = CHR '' '' then one_char (in_range CHR ''1'' CHR ''9'') r else None
                   | [] \<Rightarrow> None)]"

text \<open>\<open>%m\<close> is \<open>1[0-2]|0[1-9]|[1-9]\<close>.\<close>

definition month_alts :: "string \<Rightarrow> (nat \<times> string) list" where
  "month_alts s = List.map_filter (\<lambda>p. p s)
     [two_chars (\<lambda>c. c = CHR ''1'') (in_range CHR ''0'' CHR ''2''),
      two_chars (\<lambda>c. c = CHR ''0'') (in_range CHR ''1'' CHR ''9''),
      one_char (in_range CHR ''1'' CHR ''9'')]"

text \<open>\<open>%Y\<close> is \<open>\d\d\d\d\<close>.\<close>

definition year_alts :: "string \<Rightarrow> (nat \<times> string) list" where
  "year_alts s =
     (if 4 \<le> length s \<and> list_all is_digit (take 4 s) then [(digits_val (take 4 s), drop 4 s)] else [])"

text \<open>\<open>%b\<close> and \<open>%B\<close>: the month names of the C locale, in lower case. No name begins
  another name of its list, so at most one alternative matches and the order in which
  the pattern lists them does not matter.\<close>

definition month_abbr :: "string list" where
  "month_abbr = [''jan'', ''feb'', ''mar'', ''apr'', ''may'', ''jun'',
                 ''jul'', ''aug'', ''sep'', ''oct'', ''nov'', ''dec'']"

definition month_name :: "string list" where
  "month_name = [''january'', ''february'', ''march'', ''april'', ''may'', ''june'',
                 ''july'', ''august'', ''september'', ''october'', ''november'', ''december'']"

definition name_alts :: "string list \<Rightarrow> string \<Rightarrow> (nat \<times> string) list" where
  "name_alts names s =
     List.map_filter
       (\<lambda>(i, nm). if lower (take (length nm) s) = nm then Some (Suc i, drop (length nm) s) else None)
       (enumerate 0 names)"

text \<open>\<open>\s+\<close>: the longest run of blanks first, then shorter ones, at least one blank.\<close>

definition space_alts :: "string \<Rightarrow> string list" where
  "space_alts s = map (\<lambda>k. drop k s) (rev [1 ..< Suc (length (takeWhile is_space s))])"

definition alts :: "directive \<Rightarrow> date_fields \<Rightarrow> string \<Rightarrow> (date_fields \<times> string) list" where
  "alts d f s =
     (case d of
        DY \<Rightarrow> map (\<lambda>(v, r). (f\<lparr>f_year := v\<rparr>, r)) (year_alts s)
      | Dm \<Rightarrow> map (\<lambda>(v, r). (f\<lparr>f_month := v\<rparr>, r)) (month_alts s)
      | Dd \<Rightarrow> map (\<lambda>(v, r). (f\<lparr>f_day := v\<rparr>, r)) (day_alts s)
      | Db \<Rightarrow> map (\<lambda>(v, r). (f\<lparr>f_month := v\<rparr>, r)) (name_alts month_abbr s)
      | DB \<Rightarrow> map (\<lambda>(v, r). (f\<lparr>f_month := v\<rparr>, r)) (name_alts month_name s)
      | DLit c \<Rightarrow> (case s of [] \<Rightarrow> [] | a # r \<Rightarrow> if lower_char a = lower_char c then [(f, r)] else [])
      | DSpace \<Rightarrow> map (\<lambda>r. (f, r)) (space_alts s))"

text \<open>The first match in the order a backtracking matcher finds them.\<close>

fun match_seq :: "directive list \<Rightarrow> date_fields \<Rightarrow> string \<Rightarrow> (date_fields \<times> string) option" where
  "match_seq [] f s = Some (f, s)"
| "match_seq (d # ds) f s =
     (case List.map_filter (\<lambda>(f1, r). match_seq ds f1 r) (alts d f s) of
        [] \<Rightarrow> None
      | m # ms \<Rightarrow> Some m)"

definition leap_year :: "nat \<Rightarrow> bool" where
  "leap_year y = (y mod 4 = 0 \<and> (y mod 100 \<noteq> 0 \<or> y mod 400 = 0))"

definition days_in_month :: "nat \<Rightarrow> nat \<Rightarrow> nat" where
  "days_in_month y m =
     (if m = 2 then (if leap_year y then 29 else 28)
      else if m \<in> {4, 6, 9, 11} then 30 else 31)"

text \<open>The fields start as year 1900, month 1, day 1. The date constructor refuses year 0
  and a day the month does not have.\<close>

definition strptime :: "string \<Rightarrow> string \<Rightarrow> error + date_fields" where
  "strptime s fmt =
     (case match_seq (compile_fmt fmt) \<lparr>f_year = 1900, f_month = 1, f_day = 1\<rparr> s of
        None \<Rightarrow> Inl ValueError
      | Some (f, rest) \<Rightarrow>
          if rest \<noteq> [] then Inl ValueError
          else if 1 \<le> f_year f \<and> 1 \<le> f_month f \<and> f_month f \<le> 12
                  \<and> 1 \<le> f_day f \<and> f_day f \<le> days_in_month (f_year f) (f_month f)
          then Inr f else Inl ValueError)"

text \<open>\<open>NOW = datetime(2025, 10, 15)\<close>.\<close>

definition now_year :: int where "now_year = 2025"
definition now_month :: int where "now_month = 10"

definition fmts :: "string list" where
  "fmts = [''%Y-%m-%d'', ''%Y/%m/%d'', ''%d/%m/%Y'', ''%m/%d/%Y'', ''%b %d, %Y'', ''%B %d, %Y'', ''%Y-%m'']"

definition months_between :: "date_fields \<Rightarrow> int" where
  "months_between dt = (now_year - int (f_year dt)) * 12 + (now_month - int (f_month dt))"

text \<open>The loop over the formats: the first format that parses decides.\<close>

fun try_formats :: "string list \<Rightarrow> string \<Rightarrow> int option" where
  "try_formats [] s = None"
| "try_formats (f # fs) s =
     (case strptime s f of
        Inr dt \<Rightarrow> Some (months_between dt)
      | Inl e \<Rightarrow> try_formats fs s)"

definition months_since :: "pyval \<Rightarrow> error + int option" where
  "months_since v =
     (case v of
        PStr date_str \<Rightarrow>
          if strip date_str = [] then Inr None
          else Inr (try_formats fmts (strip date_str))
      | _ \<Rightarrow> Inr None)"

section \<open>Keyword patterns\<close>

text \<open>\<open>RX_SF\<close>, \<open>RX_LK\<close> and \<open>RX_FPNA\<close> have the shape \<open>\b(a1|a2|...)\b\<close> and ignore
  case. Each is the list of its alternatives in the pattern's order, in lower case;
  \<open>salesforce\.com\<close> is the text with a point, and \<open>looker blocks?\<close> stands for two
  alternatives, the longer first. Every alternative begins and ends with a word
  character, so the first \<open>\b\<close> asks for no word character before the match and the
  second for none after it.\<close>

definition RX_SF :: "string list" where
  "RX_SF = [''salesforce'', ''sfdc'', ''sales cloud'', ''service cloud'', ''marketing cloud'',
            ''salesforce.com'']"

definition RX_LK :: "string list" where
  "RX_LK = [''looker'', ''lookml'', ''looker studio'', ''looker blocks'', ''looker block'']"

definition RX_FPNA :: "string list" where
  "RX_FPNA = [''fp&a'', ''fpna'', ''financial planning'']"

text \<open>The alternatives that match at the head of a text, in order: the length of the
  first is the length of the match there.\<close>

definition match_here :: "string list \<Rightarrow> string \<Rightarrow> nat option" where
  "match_here rx s =
     (case filter (\<lambda>a. lower (take (length a) s) = a
                        \<and> (case drop (length a) s of [] \<Rightarrow> True | c # r \<Rightarrow> \<not> is_word c)) rx of
        [] \<Rightarrow> None
      | a # as \<Rightarrow> Some (length a))"

text \<open>\<open>len(rx.findall(s))\<close>: the scan carries whether the character before is a word
  character and how many characters of the last match are still to be passed.\<close>

fun count_matches :: "string list \<Rightarrow> bool \<Rightarrow> nat \<Rightarrow> string \<Rightarrow> nat" where
  "count_matches rx prev k [] = 0"
| "count_matches rx prev (Suc k) (c # cs) = count_matches rx (is_word c) k cs"
| "count_matches rx prev 0 (c # cs) =
     (if prev then count_matches rx (is_word c) 0 cs
      else case match_here rx (c # cs) of
        None \<Rightarrow> count_matches rx (is_word c) 0 cs
      | Some n \<Rightarrow> Suc (count_matches rx (is_word c) (n - 1) cs))"

definition findall_count :: "string list \<Rightarrow> string \<Rightarrow> nat" where
  "findall_count rx s = count_matches rx False 0 s"

definition rx_search :: "string list \<Rightarrow> string \<Rightarrow> bool" where
  "rx_search rx s = (0 < findall_count rx s)"

section \<open>Flag evaluator\<close>

text \<open>A record of the table: named string fields, as \<open>read_csv(dtype=str).fillna("")\<close>
  delivers them. \<open>row.get(k)\<close> is the cell, or \<open>None\<close> for an absent column.\<close>

type_synonym row = "string \<rightharpoonup> string"

definition row_get :: "row \<Rightarrow> string \<Rightarrow> pyval" where
  "row_get r k = (case r k of None \<Rightarrow> PNone | Some s \<Rightarrow> PStr s)"

text \<open>\<open>row.get(k) or ""\<close>.\<close>

definition get_or_empty :: "row \<Rightarrow> string \<Rightarrow> string" where
  "get_or_empty r k = (case r k of None \<Rightarrow> [] | Some s \<Rightarrow> s)"

record flags =
  size_ok :: bool
  growth_ok :: bool
  fpna_ok :: bool
  jobs_ok :: bool
  stack_ok :: bool
  mid_ok :: bool
  score :: int
  months_since_raise :: int

definition SERIES_GROWTH :: "string set" where
  "SERIES_GROWTH = {''series b'', ''series c'', ''series d'', ''growth equity'', ''private equity''}"

text \<open>\<open>sum([...])\<close> of booleans.\<close>

definition sum_bools :: "bool list \<Rightarrow> int" where
  "sum_bools bs = (\<Sum>b\<leftarrow>bs. if b then 1 else 0)"

definition local_text :: "row \<Rightarrow> string" where
  "local_text r = get_or_empty r ''Contact Job Departments'' @ [CHR 0x0A] @ get_or_empty r ''Description''"

text \<open>\<open>compute_flags_local\<close> in two steps: the statements that read and normalize the
  cells (lines 233 to 242 and 252), and the flags computed from what they gave.\<close>

definition local_flags ::
    "row \<Rightarrow> bool \<Rightarrow> int option \<times> int option \<Rightarrow> rat option \<times> rat option \<Rightarrow> int option \<Rightarrow> flags" where
  "local_flags r hiring emp rv m =
     (let ipo_status = lower (strip (get_or_empty r ''IPO Status''));
          last_funding_type = lower (strip (get_or_empty r ''Last Funding Type''));
          (emp_min, emp_max) = emp;
          (rev_min, rev_max) = rv;
          sz = (case (emp_min, emp_max) of
                  (Some lo, Some hi) \<Rightarrow> lo \<le> 2000 \<and> hi \<ge> 200
                | (Some lo, None) \<Rightarrow> 200 \<le> lo \<and> lo \<le> 2000
                | (None, _) \<Rightarrow> False);
          recent_raise = (case m of None \<Rightarrow> False | Some k \<Rightarrow> k \<le> 12);
          series_ok = (ipo_status \<notin> {''public''} \<and> last_funding_type \<in> SERIES_GROWTH);
          gr = (hiring \<or> recent_raise \<or> series_ok);
          mentions = findall_count RX_FPNA (local_text r);
          fpna_count_est = min 20 (mentions * 2);
          fp = (fpna_count_est > 5);
          jb = (hiring \<and> rx_search RX_FPNA (local_text r));
          st = (rx_search RX_SF (local_text r) \<or> rx_search RX_LK (local_text r));
          md = (if rev_min \<noteq> None \<or> rev_max \<noteq> None then
                  (let lo = 50 * 10 ^ 6; hi = 10 ^ 9;
                       rlo = (case rev_min of Some a \<Rightarrow> a | None \<Rightarrow> 0);
                       rhi = (case rev_max of Some b \<Rightarrow> b | None \<Rightarrow> 9 * 10 ^ 18)
                   in rlo \<le> hi \<and> rhi \<ge> lo)
                else sz)
      in \<lparr>size_ok = sz, growth_ok = gr, fpna_ok = fp, jobs_ok = jb, stack_ok = st,
           mid_ok = md, score = sum_bools [sz, gr, fp, jb, st, md],
           months_since_raise = (case m of Some k \<Rightarrow> k | None \<Rightarrow> 9999)\<rparr>)"

definition compute_flags_local :: "row \<Rightarrow> error + flags" where
  "compute_flags_local r =
     ebind (yn (row_get r ''Actively Hiring'')) (\<lambda>hiring.
     ebind (parse_emp_range (row_get r ''Number of Employees'')) (\<lambda>emp.
     ebind (parse_money_range_usd (row_get r ''Estimated Revenue Range'')) (\<lambda>rv.
     ebind (months_since (row_get r ''Last Funding Date'')) (\<lambda>m.
       Inr (local_flags r hiring emp rv m)))))"

section \<open>Enrichment layer\<close>

text \<open>The network is a function from the URL requested to what \<open>requests.get\<close> does
  there: it raises (timeout, connection failure, ...) or answers with a status code and
  a body. The delay between requests (\<open>time.sleep\<close>) is not modelled.

  The library calls whose code is not part of this program are parameters, each of which
  may raise: \<open>urlparse\<close>, \<open>urljoin\<close>, the \<open>href\<close> values of the anchors BeautifulSoup
  finds in a page, \<open>quote_plus\<close>, and the decoding of the search answer (\<open>r.json()\<close>
  and the reading of its two fields: the total as \<open>int(total)\<close> when it is a number,
  and the number of organic results).\<close>

datatype http_result = Raised error | Response int string

type_synonym world = "string \<Rightarrow> http_result"

record url_parts =
  scheme :: string
  netloc :: string
  hostname :: "string option"

record serp_data =
  total_results :: "int option"
  organic_results :: nat

record env =
  urlparse :: "string \<Rightarrow> error + url_parts"
  urljoin :: "string \<Rightarrow> string \<Rightarrow> error + string"
  anchor_hrefs :: "string \<Rightarrow> error + string list"
  quote_plus :: "string \<Rightarrow> string"
  json_decode :: "string \<Rightarrow> error + serp_data"

text \<open>\<open>try: body except Exception: return d\<close>.\<close>

definition catch :: "error + 'a \<Rightarrow> 'a \<Rightarrow> error + 'a" where
  "catch body d = (case body of Inl e \<Rightarrow> Inr d | Inr v \<Rightarrow> Inr v)"

fun emap :: "('a \<Rightarrow> error + 'b) \<Rightarrow> 'a list \<Rightarrow> error + 'b list" where
  "emap f [] = Inr []"
| "emap f (x # xs) = ebind (f x) (\<lambda>y. ebind (emap f xs) (\<lambda>ys. Inr (y # ys)))"

definition CAREERS_HINTS :: "string list" where
  "CAREERS_HINTS = [''career'', ''careers'', ''job'', ''jobs'', ''join'', ''vacancy'', ''opportunities'']"

definition CAREERS_FALLBACK :: "string list" where
  "CAREERS_FALLBACK = [''/careers'', ''/jobs'', ''/career'', ''/join-us'']"

subsection \<open>HTTP helpers\<close>

definition fetch :: "world \<Rightarrow> string \<Rightarrow> error + string option" where
  "fetch w url =
     (case w url of
        Raised e \<Rightarrow> Inr None
      | Response code text \<Rightarrow> if code = 200 then Inr (Some text) else Inr None)"

text \<open>\<open>not html\<close>: no page, or an empty one.\<close>

definition no_page :: "string option \<Rightarrow> bool" where
  "no_page h = (case h of None \<Rightarrow> True | Some t \<Rightarrow> t = [])"

text \<open>\<open>(?im)^disallow\s*:\s*/\s*$\<close> at the start of a line: after the slash come blanks,
  and the line must end within them or the text end after them.\<close>

definition disallow_line :: "string \<Rightarrow> bool" where
  "disallow_line s =
     (lower (take 8 s) = ''disallow'' \<and>
      (case dropWhile is_space (drop 8 s) of
         [] \<Rightarrow> False
       | c # r \<Rightarrow>
           c = CHR '':'' \<and>
           (case dropWhile is_space r of
              [] \<Rightarrow> False
            | d # t \<Rightarrow> d = CHR ''/'' \<and> (CHR 0x0A \<in> set (takeWhile is_space t) \<or> dropWhile is_space t = []))))"

fun robots_scan :: "bool \<Rightarrow> string \<Rightarrow> bool" where
  "robots_scan line_start [] = False"
| "robots_scan line_start (c # cs) =
     ((line_start \<and> disallow_line (c # cs)) \<or> robots_scan (c = CHR 0x0A) cs)"

definition allowed :: "env \<Rightarrow> world \<Rightarrow> string \<Rightarrow> error + bool" where
  "allowed en w url =
     catch
       (ebind (urlparse en url) (\<lambda>p.
          let rb = scheme p @ ''://'' @ netloc p @ ''/robots.txt'' in
          case w rb of
            Raised e \<Rightarrow> Inl e
          | Response code text \<Rightarrow>
              if code \<noteq> 200 then Inr True
              else if robots_scan True text then Inr False
              else Inr True))
       True"

subsection \<open>Detectors\<close>

text \<open>Keeps the first occurrence of each link.\<close>

fun dedupe :: "string list \<Rightarrow> string list \<Rightarrow> string list" where
  "dedupe seen [] = []"
| "dedupe seen (u # us) = (if u \<in> set seen then dedupe seen us else u # dedupe (u # seen) us)"

definition find_career_links :: "env \<Rightarrow> string \<Rightarrow> string \<Rightarrow> error + string list" where
  "find_career_links en home_html base =
     ebind (anchor_hrefs en home_html) (\<lambda>hrefs.
     ebind (emap (urljoin en base)
              (filter (\<lambda>href. list_ex (\<lambda>k. contains k (lower href)) CAREERS_HINTS) hrefs)) (\<lambda>l1.
     ebind (emap (urljoin en base) CAREERS_FALLBACK) (\<lambda>l2.
       Inr (dedupe [] (l1 @ l2)))))"

definition with_scheme :: "string \<Rightarrow> string" where
  "with_scheme domain = (if startswith domain ''http'' then domain else ''https://'' @ domain)"

fun scan_pages_fpna :: "world \<Rightarrow> string list \<Rightarrow> error + (bool \<times> string)" where
  "scan_pages_fpna w [] = Inr (False, [])"
| "scan_pages_fpna w (u # us) =
     ebind (fetch w u) (\<lambda>html.
       case html of
         None \<Rightarrow> scan_pages_fpna w us
       | Some h \<Rightarrow>
           if h = [] then scan_pages_fpna w us
           else if rx_search RX_FPNA h then Inr (True, u)
           else scan_pages_fpna w us)"

definition scan_jobs_for_fpna :: "env \<Rightarrow> world \<Rightarrow> string \<Rightarrow> error + (bool \<times> string)" where
  "scan_jobs_for_fpna en w domain =
     catch
       (ebind (urlparse en (with_scheme domain)) (\<lambda>parsed.
          let base = scheme parsed @ ''://'' @ netloc parsed in
          ebind (allowed en w base) (\<lambda>ok.
            if \<not> ok then Inr (False, [])
            else ebind (fetch w base) (\<lambda>home.
              case home of
                None \<Rightarrow> Inr (False, [])
              | Some h \<Rightarrow>
                  if h = [] then Inr (False, [])
                  else if rx_search RX_FPNA h then Inr (True, base @ '' (homepage)'')
                  else ebind (find_career_links en h base) (\<lambda>links.
                         scan_pages_fpna w (take 6 links))))))
       (False, [])"

fun scan_pages_stack :: "world \<Rightarrow> string list \<Rightarrow> error + (bool \<times> string \<times> bool \<times> string)" where
  "scan_pages_stack w [] = Inr (False, [], False, [])"
| "scan_pages_stack w (u # us) =
     ebind (fetch w u) (\<lambda>html.
       case html of
         None \<Rightarrow> scan_pages_stack w us
       | Some h \<Rightarrow>
           if h = [] then scan_pages_stack w us
           else let sf = rx_search RX_SF h; lk = rx_search RX_LK h in
                if sf \<or> lk then Inr (sf, if sf then u else [], lk, if lk then u else [])
                else scan_pages_stack w us)"

definition detect_stack_via_jobs ::
    "env \<Rightarrow> world \<Rightarrow> string \<Rightarrow> error + (bool \<times> string \<times> bool \<times> string)" where
  "detect_stack_via_jobs en w domain =
     catch
       (ebind (urlparse en (with_scheme domain)) (\<lambda>parsed.
          let base = scheme parsed @ ''://'' @ netloc parsed in
          ebind (allowed en w base) (\<lambda>ok.
            if \<not> ok then Inr (False, [], False, [])
            else ebind (fetch w base) (\<lambda>home.
              case home of
                None \<Rightarrow> Inr (False, [], False, [])
              | Some h \<Rightarrow>
                  if h = [] then Inr (False, [], False, [])
                  else ebind (find_career_links en h base) (\<lambda>links.
                         scan_pages_stack w (take 6 links))))))
       (False, [], False, [])"

text \<open>\<open>parsed.hostname or domain\<close>.\<close>

definition host_or :: "url_parts \<Rightarrow> string \<Rightarrow> string" where
  "host_or parsed domain =
     (case hostname parsed of None \<Rightarrow> domain | Some h \<Rightarrow> if h = [] then domain else h)"

text \<open>The two fingerprint pages differ in the address looked up and in the name of
  the source.\<close>

definition lookup_page ::
    "env \<Rightarrow> world \<Rightarrow> string \<Rightarrow> string \<Rightarrow> error + (bool \<times> string \<times> bool \<times> string)" where
  "lookup_page en w url source =
     ebind (allowed en w url) (\<lambda>ok.
       if \<not> ok then Inr (False, [], False, [])
       else ebind (fetch w url) (\<lambda>html.
         case html of
           None \<Rightarrow> Inr (False, [], False, [])
         | Some h \<Rightarrow>
             if h = [] then Inr (False, [], False, [])
             else Inr (rx_search RX_SF h, source, rx_search RX_LK h, source)))"

definition detect_stackshare ::
    "env \<Rightarrow> world \<Rightarrow> string \<Rightarrow> error + (bool \<times> string \<times> bool \<times> string)" where
  "detect_stackshare en w domain =
     catch
       (ebind (urlparse en (with_scheme domain)) (\<lambda>parsed.
          let slug = takeWhile (\<lambda>c. c \<noteq> CHR ''.'') (host_or parsed domain);
              url = ''https://stackshare.io/'' @ slug
          in lookup_page en w url ''stackshare''))
       (False, [], False, [])"

definition detect_builtwith ::
    "env \<Rightarrow> world \<Rightarrow> string \<Rightarrow> error + (bool \<times> string \<times> bool \<times> string)" where
  "detect_builtwith en w domain =
     catch
       (ebind (urlparse en (with_scheme domain)) (\<lambda>parsed.
          let host = host_or parsed domain;
              url = ''https://builtwith.com/'' @ host
          in lookup_page en w url ''builtwith''))
       (False, [], False, [])"

text \<open>\<open>not serpapi_key\<close>: the key is \<open>None\<close> or empty.\<close>

definition no_key :: "string option \<Rightarrow> bool" where
  "no_key k = (case k of None \<Rightarrow> True | Some s \<Rightarrow> s = [])"

definition serp_query :: "string \<Rightarrow> string" where
  "serp_query company_name =
     ''site:linkedin.com/in ('' @ [CHR 0x22] @ ''FP&A'' @ [CHR 0x22] @ '' OR FPnA) ''
       @ [CHR 0x22] @ company_name @ [CHR 0x22]"

definition serpapi_fpna_count ::
    "env \<Rightarrow> world \<Rightarrow> string \<Rightarrow> string option \<Rightarrow> error + (int option \<times> string)" where
  "serpapi_fpna_count en w company_name serpapi_key =
     (case serpapi_key of
        None \<Rightarrow> Inr (None, [])
      | Some key \<Rightarrow>
        if key = [] \<or> company_name = [] then Inr (None, [])
        else
          catch
            (let q = serp_query company_name;
                 url = ''https://serpapi.com/search.json?engine=google&q='' @ quote_plus en q
                         @ ''&api_key='' @ key
             in case w url of
                  Raised e \<Rightarrow> Inl e
                | Response code text \<Rightarrow>
                    if code \<noteq> 200 then Inr (None, [])
                    else ebind (json_decode en text) (\<lambda>data.
                      let ev = ''SerpAPI: '' @ q in
                      case total_results data of
                        Some n \<Rightarrow> Inr (Some n, ev)
                      | None \<Rightarrow>
                          Inr (if organic_results data \<noteq> 0
                               then Some (int (organic_results data)) else None, ev)))
            (None, []))"

subsection \<open>Enriched flags\<close>

definition website_of :: "row \<Rightarrow> string" where
  "website_of r =
     (let ws = get_or_empty r ''Website'' in
      if ws \<noteq> [] then ws else get_or_empty r ''Organization Name URL'')"

text \<open>The chain of stack lookups for a record with a website: the next source is asked
  only while nothing was found.\<close>

definition stack_chain :: "env \<Rightarrow> world \<Rightarrow> string \<Rightarrow> error + bool" where
  "stack_chain en w website =
     ebind (detect_stack_via_jobs en w website) (\<lambda>(a, b, c, d).
       if a \<or> c then Inr True
       else ebind (detect_stackshare en w website) (\<lambda>(a, b, c, d).
         if a \<or> c then Inr True
         else ebind (detect_builtwith en w website) (\<lambda>(a, b, c, d). Inr (a \<or> c))))"

text \<open>\<open>compute_flags_enriched\<close> in the same two steps; the detectors are called between
  them, and the flags are computed from what the cells and the detectors gave.\<close>

definition enriched_flags ::
    "row \<Rightarrow> bool \<Rightarrow> int option \<times> int option \<Rightarrow> rat option \<times> rat option \<Rightarrow> int option
      \<Rightarrow> int option \<Rightarrow> bool \<Rightarrow> bool \<Rightarrow> flags" where
  "enriched_flags r hiring emp rv m fpna_found jb st1 =
     (let ipo_status = lower (strip (get_or_empty r ''IPO Status''));
          last_funding_type = lower (strip (get_or_empty r ''Last Funding Type''));
          (emp_min, emp_max) = emp;
          (rev_min, rev_max) = rv;
          sz = (case (emp_min, emp_max) of
                  (Some lo, Some hi) \<Rightarrow> lo \<le> 2000 \<and> hi \<ge> 200
                | (Some lo, None) \<Rightarrow> 200 \<le> lo \<and> lo \<le> 2000
                | (None, _) \<Rightarrow> False);
          recent_raise = (case m of None \<Rightarrow> False | Some k \<Rightarrow> k \<le> 12);
          series_ok = (ipo_status \<notin> {''public''} \<and> last_funding_type \<in> SERIES_GROWTH);
          gr = (hiring \<or> recent_raise \<or> series_ok);
          fpna_count = (case fpna_found of
                          None \<Rightarrow> int (min 20 (findall_count RX_FPNA (local_text r) * 2))
                        | Some c \<Rightarrow> c);
          fp = (fpna_count > 5);
          st = (if \<not> st1 then rx_search RX_SF (local_text r) \<or> rx_search RX_LK (local_text r)
                else st1);
          md = (if rev_min \<noteq> None \<or> rev_max \<noteq> None then
                  (let lo = 50 * 10 ^ 6; hi = 10 ^ 9;
                       rlo = (case rev_min of Some a \<Rightarrow> a | None \<Rightarrow> 0);
                       rhi = (case rev_max of Some b \<Rightarrow> b | None \<Rightarrow> 9 * 10 ^ 18)
                   in rlo \<le> hi \<and> rhi \<ge> lo)
                else sz)
      in \<lparr>size_ok = sz, growth_ok = gr, fpna_ok = fp, jobs_ok = jb, stack_ok = st,
           mid_ok = md, score = sum_bools [sz, gr, fp, jb, st, md],
           months_since_raise = (case m of Some k \<Rightarrow> k | None \<Rightarrow> 9999)\<rparr>)"

definition compute_flags_enriched :: "env \<Rightarrow> world \<Rightarrow> row \<Rightarrow> string option \<Rightarrow> error + flags" where
  "compute_flags_enriched en w r serpapi_key =
     (let name = strip (get_or_empty r ''Organization Name'');
          website = website_of r
      in
     ebind (yn (row_get r ''Actively Hiring'')) (\<lambda>hiring.
     ebind (parse_emp_range (row_get r ''Number of Employees'')) (\<lambda>emp.
     ebind (parse_money_range_usd (row_get r ''Estimated Revenue Range'')) (\<lambda>rv.
     ebind (months_since (row_get r ''Last Funding Date'')) (\<lambda>m.
     ebind (if \<not> no_key serpapi_key then serpapi_fpna_count en w name serpapi_key
            else Inr (None, [])) (\<lambda>(fpna_found, fpna_ev).
     ebind (if website \<noteq> [] then scan_jobs_for_fpna en w website else Inr (False, [])) (\<lambda>(jb, ev).
     ebind (if website \<noteq> [] then stack_chain en w website else Inr False) (\<lambda>st1.
       Inr (enriched_flags r hiring emp rv m fpna_found jb st1)))))))))"

section \<open>Pipeline\<close>

text \<open>A data frame is the list of its rows in order, each carrying its index label
  (the position in the input). A frame built from no rows has no columns, so naming a
  column of it raises KeyError: this is what line 396 does on an empty input, and what
  \<open>sort_values(by=[...])\<close> would do.

  \<open>sort_values\<close> by several columns orders the rows by the tuple of their keys, a
  descending column through its reversed order, and keeps rows with equal keys in the
  order they had (pandas sorts several keys with a stable lexicographic sort).
  \<open>head(n)\<close> gives the first \<open>n\<close> rows, and all but the last \<open>-n\<close> rows for a negative
  \<open>n\<close>.\<close>

definition sort_values :: "('a \<Rightarrow> int) \<Rightarrow> ('a \<Rightarrow> int) \<Rightarrow> 'a list \<Rightarrow> error + 'a list" where
  "sort_values desc_col asc_col df =
     (if df = [] then Inl KeyError
      else Inr (sort_key (\<lambda>x. (- desc_col x, asc_col x)) df))"

definition head :: "int \<Rightarrow> 'a list \<Rightarrow> 'a list" where
  "head n df = (if 0 \<le> n then take (nat n) df else take (length df - nat (- n)) df)"

record base_row =
  base_index :: nat
  Score_BASE :: int
  BASE_MonthsSinceRaise :: int

record scored =
  rec_index :: nat
  rec_row :: row
  rec_flags :: flags
  Enriched :: bool

definition base_pass :: "row list \<Rightarrow> error + base_row list" where
  "base_pass rows =
     emap (\<lambda>(i, r). ebind (compute_flags_local r) (\<lambda>fl.
             Inr \<lparr>base_index = i, Score_BASE = score fl,
                  BASE_MonthsSinceRaise = months_since_raise fl\<rparr>))
          (enumerate 0 rows)"

text \<open>Lines 396 to 398: the index labels of the first \<open>topn\<close> rows of the sorted base
  frame.\<close>

definition select_candidates :: "int \<Rightarrow> base_row list \<Rightarrow> error + nat set" where
  "select_candidates topn base_df =
     ebind (sort_values Score_BASE BASE_MonthsSinceRaise base_df) (\<lambda>base_sorted.
       Inr (set (map base_index (head topn base_sorted))))"

definition final_pass ::
    "env \<Rightarrow> world \<Rightarrow> string option \<Rightarrow> nat set \<Rightarrow> row list \<Rightarrow> error + scored list" where
  "final_pass en w serpapi_key enrich_index rows =
     emap (\<lambda>(i, r).
             ebind (if i \<in> enrich_index then compute_flags_enriched en w r serpapi_key
                    else compute_flags_local r) (\<lambda>fl.
               Inr \<lparr>rec_index = i, rec_row = r, rec_flags = fl, Enriched = (i \<in> enrich_index)\<rparr>))
          (enumerate 0 rows)"

text \<open>\<open>args.serpapi_key or None\<close>.\<close>

definition key_or_none :: "string \<Rightarrow> string option" where
  "key_or_none k = (if k = [] then None else Some k)"

text \<open>\<open>main\<close> from the loaded rows to the two frames written: the full output and the
  top 200.\<close>

definition main :: "env \<Rightarrow> world \<Rightarrow> int \<Rightarrow> string \<Rightarrow> row list \<Rightarrow> error + (scored list \<times> scored list)" where
  "main en w topn serpapi_key rows =
     ebind (base_pass rows) (\<lambda>base_df.
     ebind (select_candidates topn base_df) (\<lambda>enrich_index.
     ebind (final_pass en w (key_or_none serpapi_key) enrich_index rows) (\<lambda>final_rows.
     ebind (sort_values (\<lambda>x. score (rec_flags x)) (\<lambda>x. months_since_raise (rec_flags x)) final_rows)
       (\<lambda>out. Inr (out, head 200 out)))))"

section \<open>Notions of the specification, and sample data\<close>



text \<open>The date a text denotes: the fields of the first format, in the order of
  \<open>months_since\<close>, under which it parses.\<close>

fun first_parse :: "string list \<Rightarrow> string \<Rightarrow> date_fields option" where
  "first_parse [] s = None"
| "first_parse (f # fs) s =
     (case strptime s f of Inr dt \<Rightarrow> Some dt | Inl e \<Rightarrow> first_parse fs s)"

definition parsed_date :: "pyval \<Rightarrow> date_fields option" where
  "parsed_date v = (case v of PStr s \<Rightarrow> first_parse fmts (strip s) | _ \<Rightarrow> None)"







text \<open>A revenue range against the mid-market band of 50 million to 1 billion, an unknown
  lower bound read as 0 and an unknown upper bound as unbounded.\<close>

definition overlaps_mid_market :: "rat option \<Rightarrow> rat option \<Rightarrow> bool" where
  "overlaps_mid_market rev_min rev_max =
     ((case rev_min of None \<Rightarrow> 0 | Some a \<Rightarrow> a) \<le> 1000000000 \<and>
      (case rev_max of None \<Rightarrow> True | Some b \<Rightarrow> 50000000 \<le> b))"




definition sample_row :: row where
  "sample_row = map_of
     [(''Organization Name'', ''Acme''), (''Website'', ''acme.com''),
      (''Actively Hiring'', ''yes''), (''Number of Employees'', ''500+''),
      (''Estimated Revenue Range'', ''$60M+''), (''Last Funding Date'', ''2024-10-15''),
      (''Description'', ''fpna fpna fpna sfdc'')]"

section \<open>The normalizers always return\<close>

text \<open>Every place where a normalizer can raise is a branch of the model. The lemmas
  below show that each such branch is either under a \<open>try\<close> or cannot be reached:
  \<open>int\<close> and \<open>float\<close> are only handed text the patterns have matched as digits, and
  \<open>min\<close> and \<open>max\<close> only a non-empty list.\<close>

lemma ebind_Inr [simp]: "ebind (Inr v) f = f v"
  by (simp add: ebind_def)

lemma ebind_Inl [simp]: "ebind (Inl e) f = Inl e"
  by (simp add: ebind_def)

lemma catch_returns: "\<exists>v. catch body d = Inr v"
  by (cases body) (simp_all add: catch_def)

lemma dot_not_digit: "\<not> is_digit CHR ''.''"
  by (simp add: is_digit_def)

lemma py_int_digits:
  assumes "s \<noteq> []" "list_all is_digit s"
  shows "py_int s = Inr (int (digits_val s))"
  using assms by (simp add: py_int_def)

lemma all_digits_takeWhile: "list_all is_digit (takeWhile is_digit s)"
  by (simp add: list_all_iff) (meson set_takeWhileD)

lemma py_float_whole:
  assumes "ip \<noteq> []" "list_all is_digit ip"
  shows "\<exists>v. py_float ip = Inr v"
proof -
  from assms(2) have tw: "takeWhile is_digit ip = ip" and dw: "dropWhile is_digit ip = []"
    by (simp_all add: list_all_iff)
  show ?thesis unfolding py_float_def Let_def tw dw using assms(1) by simp
qed

lemma py_float_fraction:
  assumes "ip \<noteq> []" "list_all is_digit ip" "list_all is_digit fr"
  shows "\<exists>v. py_float (ip @ ''.'' @ fr) = Inr v"
proof -
  from assms(2) have "takeWhile is_digit (ip @ ''.'' @ fr) = ip"
    by (simp add: list_all_iff takeWhile_append2 dot_not_digit)
  moreover from assms(2) have "dropWhile is_digit (ip @ ''.'' @ fr) = CHR ''.'' # fr"
    by (simp add: list_all_iff dropWhile_append2 dot_not_digit)
  ultimately show ?thesis using assms by (simp add: py_float_def Let_def)
qed

lemma num_returns: "\<exists>v. num tok = Inr v"
proof (cases "dropWhile (\<lambda>c. \<not> is_digit c) tok = []")
  case True
  then show ?thesis by (cases "py_float tok") (simp_all add: num_def)
next
  case False
  define s1 where "s1 = dropWhile (\<lambda>c. \<not> is_digit c) tok"
  define ip where "ip = takeWhile is_digit s1"
  define r1 where "r1 = dropWhile is_digit s1"
  define frac where "frac = (case r1 of [] \<Rightarrow> [] | c # r \<Rightarrow> if c = CHR ''.'' then takeWhile is_digit r else [])"
  define g1 where "g1 = (if frac = [] then ip else ip @ ''.'' @ frac)"
  from False have "s1 \<noteq> []" by (simp add: s1_def)
  moreover have "is_digit (hd s1)"
    using False hd_dropWhile[of "\<lambda>c. \<not> is_digit c" tok] by (simp add: s1_def)
  ultimately have ip: "ip \<noteq> []" by (cases s1) (simp_all add: ip_def)
  have dip: "list_all is_digit ip" by (simp add: ip_def all_digits_takeWhile)
  have dfr: "list_all is_digit frac"
    by (simp add: frac_def all_digits_takeWhile split: list.splits)
  have "\<exists>v. py_float g1 = Inr v"
    unfolding g1_def using py_float_whole[OF ip dip] py_float_fraction[OF ip dip dfr] by simp
  then obtain v where v: "py_float g1 = Inr v" ..
  have "num tok = ebind (py_float g1) (\<lambda>v. Inr (Some (scale
      (case dropWhile is_space (if frac = [] then r1 else drop (Suc (length frac)) r1) of
         [] \<Rightarrow> None | c # r \<Rightarrow> if is_magnitude c then Some c else None) v)))"
    unfolding num_def Let_def g1_def frac_def r1_def ip_def s1_def
    by (simp only: False if_False)
  with v show ?thesis by simp
qed

lemma collect_vals_returns: "\<exists>vs. collect_vals xs = Inr vs"
proof (induction xs)
  case Nil
  show ?case by simp
next
  case (Cons p xs)
  obtain n u where p: "p = (n, u)" by (cases p)
  obtain v where v: "num (n @ [u]) = Inr v" using num_returns by blast
  from Cons obtain vs where "collect_vals xs = Inr vs" ..
  with p v show ?case by simp
qed

lemma py_min_returns: "vals \<noteq> [] \<Longrightarrow> \<exists>v. py_min vals = Inr v"
  by (cases vals) simp_all

lemma py_max_returns: "vals \<noteq> [] \<Longrightarrow> \<exists>v. py_max vals = Inr v"
  by (cases vals) simp_all

lemma parse_money_range_usd_returns: "\<exists>p. parse_money_range_usd v = Inr p"
proof (cases v)
  case (PStr s)
  define x where "x = replace (strip (upper (replace s '','' ''''))) '' TO '' ''-''"
  show ?thesis
  proof (cases "strip s = [] \<or> contains ''UNKNOWN'' x \<or> x \<in> set [''-'', ''N/A'', ''NA'']")
    case True
    then show ?thesis using PStr by (auto simp: parse_money_range_usd_def Let_def x_def[symmetric])
  next
    case False
    note F = this
    show ?thesis
    proof (cases "match_money_pair x")
      case (Some q)
      obtain n1 u1 n2 u2 where q: "q = (n1, u1, n2, u2)" by (cases q)
      obtain a where a: "num (n1 @ [u1]) = Inr a" using num_returns by blast
      obtain b where b: "num (n2 @ [u2]) = Inr b" using num_returns by blast
      from F Some q a b PStr show ?thesis
        by (simp add: parse_money_range_usd_def Let_def x_def[symmetric])
    next
      case None
      note N = this
      show ?thesis
      proof (cases "match_money_plus x")
        case (Some q)
        obtain n u where q: "q = (n, u)" by (cases q)
        obtain a where a: "num (n @ [u]) = Inr a" using num_returns by blast
        from F N Some q a PStr show ?thesis
          by (simp add: parse_money_range_usd_def Let_def x_def[symmetric])
      next
        case None
        obtain vals where vals: "collect_vals (findall_money x) = Inr vals"
          using collect_vals_returns by blast
        show ?thesis
        proof (cases "findall_money x = [] \<or> vals = []")
          case True
          with F N None vals PStr show ?thesis
            by (auto simp: parse_money_range_usd_def Let_def x_def[symmetric])
        next
          case False
          then obtain lo hi where "py_min vals = Inr lo" "py_max vals = Inr hi"
            using py_min_returns py_max_returns by blast
          with False F N None vals PStr show ?thesis
            by (simp add: parse_money_range_usd_def Let_def x_def[symmetric])
        qed
      qed
    qed
  qed
qed (simp_all add: parse_money_range_usd_def)

lemma match_emp_range_groups:
  assumes "match_emp_range x = Some (a, b)"
  shows "a \<noteq> [] \<and> list_all is_digit a \<and> b \<noteq> [] \<and> list_all is_digit b"
  using assms
  by (auto simp: match_emp_range_def Let_def all_digits_takeWhile split: if_splits list.splits)

lemma parse_emp_text_returns: "\<exists>p. parse_emp_text s = Inr p"
proof -
  define x where "x = replace (strip (lower (replace s '','' ''''))) '' to '' ''-''"
  show ?thesis
  proof (cases "endswith x ''+''")
    case True
    then show ?thesis
      by (cases "py_int (digits_only x)") (simp_all add: parse_emp_text_def x_def[symmetric])
  next
    case plus: False
    show ?thesis
    proof (cases "match_emp_range x")
      case None
      with plus show ?thesis
        by (cases "py_int (digits_only x)") (simp_all add: parse_emp_text_def x_def[symmetric])
    next
      case (Some q)
      obtain a b where q: "q = (a, b)" by (cases q)
      from Some q match_emp_range_groups
      have "py_int a = Inr (int (digits_val a))" "py_int b = Inr (int (digits_val b))"
        by (simp_all add: py_int_digits)
      with plus Some q show ?thesis
        by (simp add: parse_emp_text_def x_def[symmetric])
    qed
  qed
qed

lemma parse_emp_range_returns: "\<exists>p. parse_emp_range v = Inr p"
  using parse_emp_text_returns by (cases v) (simp_all add: parse_emp_range_def)

lemma yn_returns: "\<exists>b. yn v = Inr b"
  by (cases v) (auto simp: yn_def Let_def)

lemma months_since_returns: "\<exists>m. months_since v = Inr m"
  by (cases v) (simp_all add: months_since_def)

section \<open>Claims about the normalizers\<close>

lemma tv_money_pair: "parse_money_range_usd (PStr ''$1M-$5M'') = Inr (Some 1000000, Some 5000000)"
  by code_simp
lemma tv_money_plus: "parse_money_range_usd (PStr ''$500K+'') = Inr (Some 500000, None)"
  by code_simp
lemma tv_money_unknown: "parse_money_range_usd (PStr ''unknown'') = Inr (None, None)"
  by code_simp
lemma tv_emp_range: "parse_emp_range (PStr ''500-1,000'') = Inr (Some 500, Some 1000)"
  by code_simp
lemma tv_emp_plus: "parse_emp_range (PStr ''200+'') = Inr (Some 200, None)"
  by code_simp
lemma tv_emp_single: "parse_emp_range (PStr ''750'') = Inr (Some 750, Some 750)"
  by code_simp
lemma tv_date_iso: "months_since (PStr ''2024-10-15'') = Inr (Some 12)"
  by code_simp
lemma tv_date_slash: "months_since (PStr ''2024/10/15'') = Inr (Some 12)"
  by code_simp
lemma tv_date_dmy: "months_since (PStr ''15/10/2024'') = Inr (Some 12)"
  by code_simp
lemma tv_date_mdy: "months_since (PStr ''10/15/2024'') = Inr (Some 12)"
  by code_simp
lemma tv_date_abbr: "months_since (PStr ''Oct 15, 2024'') = Inr (Some 12)"
  by code_simp
lemma tv_date_full: "months_since (PStr ''October 15, 2024'') = Inr (Some 12)"
  by code_simp
lemma tv_date_ym: "months_since (PStr ''2024-10'') = Inr (Some 12)"
  by code_simp
lemma tv_date_empty: "months_since (PStr '''') = Inr None"
  by code_simp
lemma tv_flags_empty_date:
  "map_sum id months_since_raise (compute_flags_local (map_of [(''Last Funding Date'', '''')])) = Inr 9999"
  by code_simp

text \<open>C8: the normalizers meet the test vectors. The money parser maps \<open>$1M-$5M\<close> to
  (1,000,000, 5,000,000), \<open>$500K+\<close> to (500,000, unknown) and \<open>unknown\<close> to (unknown,
  unknown); the employee parser maps \<open>500-1,000\<close> to (500, 1000), \<open>200+\<close> to (200,
  unknown) and \<open>750\<close> to (750, 750); a date twelve months before the reference instant
  of 15 October 2025, written in any of the seven formats, gives 12; the empty string
  gives the unknown result, which the flags carry as 9999.\<close>

theorem normalizer_test_vectors:
  "parse_money_range_usd (PStr ''$1M-$5M'') = Inr (Some 1000000, Some 5000000) \<and>
   parse_money_range_usd (PStr ''$500K+'') = Inr (Some 500000, None) \<and>
   parse_money_range_usd (PStr ''unknown'') = Inr (None, None) \<and>
   parse_emp_range (PStr ''500-1,000'') = Inr (Some 500, Some 1000) \<and>
   parse_emp_range (PStr ''200+'') = Inr (Some 200, None) \<and>
   parse_emp_range (PStr ''750'') = Inr (Some 750, Some 750) \<and>
   months_since (PStr ''2024-10-15'') = Inr (Some 12) \<and>
   months_since (PStr ''2024/10/15'') = Inr (Some 12) \<and>
   months_since (PStr ''15/10/2024'') = Inr (Some 12) \<and>
   months_since (PStr ''10/15/2024'') = Inr (Some 12) \<and>
   months_since (PStr ''Oct 15, 2024'') = Inr (Some 12) \<and>
   months_since (PStr ''October 15, 2024'') = Inr (Some 12) \<and>
   months_since (PStr ''2024-10'') = Inr (Some 12) \<and>
   months_since (PStr '''') = Inr None \<and>
   map_sum id months_since_raise (compute_flags_local (map_of [(''Last Funding Date'', '''')])) = Inr 9999"
  by (intro conjI tv_money_pair tv_money_plus tv_money_unknown tv_emp_range tv_emp_plus
      tv_emp_single tv_date_iso tv_date_slash tv_date_dmy tv_date_mdy tv_date_abbr tv_date_full
      tv_date_ym tv_date_empty tv_flags_empty_date)



section \<open>Claims about the flag evaluator\<close>


lemma allowed_returns: "\<exists>b. allowed en w url = Inr b"
  unfolding allowed_def by (rule catch_returns)

lemma scan_jobs_for_fpna_returns: "\<exists>p. scan_jobs_for_fpna en w domain = Inr p"
  unfolding scan_jobs_for_fpna_def by (rule catch_returns)

lemma detect_stack_via_jobs_returns: "\<exists>p. detect_stack_via_jobs en w domain = Inr p"
  unfolding detect_stack_via_jobs_def by (rule catch_returns)

lemma detect_stackshare_returns: "\<exists>p. detect_stackshare en w domain = Inr p"
  unfolding detect_stackshare_def by (rule catch_returns)

lemma detect_builtwith_returns: "\<exists>p. detect_builtwith en w domain = Inr p"
  unfolding detect_builtwith_def by (rule catch_returns)

lemma serpapi_fpna_count_returns: "\<exists>p. serpapi_fpna_count en w company_name serpapi_key = Inr p"
proof (cases serpapi_key)
  case None
  then show ?thesis by (simp add: serpapi_fpna_count_def)
next
  case (Some key)
  show ?thesis
  proof (cases "key = [] \<or> company_name = []")
    case True
    with Some show ?thesis by (auto simp: serpapi_fpna_count_def)
  next
    case False
    with Some show ?thesis
      by (auto simp: serpapi_fpna_count_def catch_def split: sum.splits)
  qed
qed

lemma stack_chain_returns: "\<exists>b. stack_chain en w website = Inr b"
proof -
  obtain a b c d where j: "detect_stack_via_jobs en w website = Inr (a, b, c, d)"
    using detect_stack_via_jobs_returns by (metis prod_cases4)
  obtain a2 b2 c2 d2 where s: "detect_stackshare en w website = Inr (a2, b2, c2, d2)"
    using detect_stackshare_returns by (metis prod_cases4)
  obtain a3 b3 c3 d3 where b: "detect_builtwith en w website = Inr (a3, b3, c3, d3)"
    using detect_builtwith_returns by (metis prod_cases4)
  show ?thesis by (auto simp: stack_chain_def j s b)
qed

text \<open>What the two variants return, given what their parts return.\<close>

lemma compute_flags_local_parts:
  obtains hiring emp rv m where
    "yn (row_get r ''Actively Hiring'') = Inr hiring"
    "parse_emp_range (row_get r ''Number of Employees'') = Inr emp"
    "parse_money_range_usd (row_get r ''Estimated Revenue Range'') = Inr rv"
    "months_since (row_get r ''Last Funding Date'') = Inr m"
    "compute_flags_local r = Inr (local_flags r hiring emp rv m)"
proof -
  obtain hiring where h: "yn (row_get r ''Actively Hiring'') = Inr hiring"
    using yn_returns by blast
  obtain emp where e: "parse_emp_range (row_get r ''Number of Employees'') = Inr emp"
    using parse_emp_range_returns by blast
  obtain rv where v: "parse_money_range_usd (row_get r ''Estimated Revenue Range'') = Inr rv"
    using parse_money_range_usd_returns by blast
  obtain m where m: "months_since (row_get r ''Last Funding Date'') = Inr m"
    using months_since_returns by blast
  have "compute_flags_local r = Inr (local_flags r hiring emp rv m)"
    by (simp add: compute_flags_local_def h e v m)
  with h e v m that show thesis by blast
qed

lemma compute_flags_enriched_parts:
  obtains hiring emp rv m fpna_found fpna_ev jb ev st1 where
    "yn (row_get r ''Actively Hiring'') = Inr hiring"
    "parse_emp_range (row_get r ''Number of Employees'') = Inr emp"
    "parse_money_range_usd (row_get r ''Estimated Revenue Range'') = Inr rv"
    "months_since (row_get r ''Last Funding Date'') = Inr m"
    "(if \<not> no_key key
      then serpapi_fpna_count en w (strip (get_or_empty r ''Organization Name'')) key
      else Inr (None, [])) = Inr (fpna_found, fpna_ev)"
    "(if website_of r \<noteq> [] then scan_jobs_for_fpna en w (website_of r) else Inr (False, []))
       = Inr (jb, ev)"
    "(if website_of r \<noteq> [] then stack_chain en w (website_of r) else Inr False) = Inr st1"
    "compute_flags_enriched en w r key = Inr (enriched_flags r hiring emp rv m fpna_found jb st1)"
proof -
  obtain hiring where h: "yn (row_get r ''Actively Hiring'') = Inr hiring"
    using yn_returns by blast
  obtain emp where e: "parse_emp_range (row_get r ''Number of Employees'') = Inr emp"
    using parse_emp_range_returns by blast
  obtain rv where v: "parse_money_range_usd (row_get r ''Estimated Revenue Range'') = Inr rv"
    using parse_money_range_usd_returns by blast
  obtain m where m: "months_since (row_get r ''Last Funding Date'') = Inr m"
    using months_since_returns by blast
  obtain ff fev where s: "(if \<not> no_key key
      then serpapi_fpna_count en w (strip (get_or_empty r ''Organization Name'')) key
      else Inr (None, [])) = Inr (ff, fev)"
    using serpapi_fpna_count_returns by (metis surj_pair)
  obtain jb ev where j: "(if website_of r \<noteq> [] then scan_jobs_for_fpna en w (website_of r)
      else Inr (False, [])) = Inr (jb, ev)"
    using scan_jobs_for_fpna_returns by (metis surj_pair)
  obtain st1 where t: "(if website_of r \<noteq> [] then stack_chain en w (website_of r)
      else Inr False) = Inr st1"
    using stack_chain_returns by metis
  have "compute_flags_enriched en w r key = Inr (enriched_flags r hiring emp rv m ff jb st1)"
    by (simp add: compute_flags_enriched_def Let_def h e v m s j t)
  with h e v m s j t that show thesis by blast
qed







section \<open>The sample record, evaluated\<close>

lemma sample_local_eval:
  "compute_flags_local sample_row =
     Inr \<lparr>size_ok = True, growth_ok = True, fpna_ok = True, jobs_ok = True, stack_ok = True,
          mid_ok = True, score = 6, months_since_raise = 12\<rparr>"
  by code_simp



lemma empty_local_eval:
  "compute_flags_local Map.empty =
     Inr \<lparr>size_ok = False, growth_ok = False, fpna_ok = False, jobs_ok = False,
          stack_ok = False, mid_ok = False, score = 0, months_since_raise = 9999\<rparr>"
  by code_simp

lemma sample_revenue_eval:
  "parse_money_range_usd (row_get sample_row ''Estimated Revenue Range'') = Inr (Some 60000000, None)"
  by code_simp

lemma sample_date_eval:
  "parsed_date (row_get sample_row ''Last Funding Date'')
     = Some \<lparr>f_year = 2024, f_month = 10, f_day = 15\<rparr>"
  by code_simp

lemma empty_date_eval: "parsed_date (row_get Map.empty ''Last Funding Date'') = None"
  by code_simp

section \<open>Score and flags\<close>





section \<open>Claims about dates\<close>

lemma try_formats_first_parse:
  "try_formats fs s = map_option months_between (first_parse fs s)"
  by (induction fs) (simp_all split: sum.splits)

lemma first_parse_empty: "first_parse fmts [] = None"
  by code_simp

lemma months_since_parsed_date:
  "months_since v = Inr (map_option months_between (parsed_date v))"
proof (cases v)
  case (PStr s)
  then show ?thesis
    by (cases "strip s = []")
       (simp_all add: months_since_def parsed_date_def try_formats_first_parse first_parse_empty)
qed (simp_all add: months_since_def parsed_date_def)

lemma months_local:
  assumes "compute_flags_local r = Inr fl"
  shows "months_since_raise fl =
     (case parsed_date (row_get r ''Last Funding Date'') of
        Some d \<Rightarrow> months_between d | None \<Rightarrow> 9999)"
proof -
  obtain hiring emp rv m where
    h: "yn (row_get r ''Actively Hiring'') = Inr hiring"
    and e: "parse_emp_range (row_get r ''Number of Employees'') = Inr emp"
    and v: "parse_money_range_usd (row_get r ''Estimated Revenue Range'') = Inr rv"
    and m: "months_since (row_get r ''Last Funding Date'') = Inr m"
    and fl: "compute_flags_local r = Inr (local_flags r hiring emp rv m)"
    by (rule compute_flags_local_parts)
  from assms fl have "fl = local_flags r hiring emp rv m" by simp
  moreover from m have "m = map_option months_between (parsed_date (row_get r ''Last Funding Date''))"
    by (simp add: months_since_parsed_date)
  ultimately show ?thesis
    by (cases emp; cases rv) (simp add: local_flags_def Let_def split: option.splits)
qed

lemma months_enriched:
  assumes "compute_flags_enriched en w r key = Inr fl"
  shows "months_since_raise fl =
     (case parsed_date (row_get r ''Last Funding Date'') of
        Some d \<Rightarrow> months_between d | None \<Rightarrow> 9999)"
proof -
  obtain hiring emp rv m ff fev jb ev st1 where
    h: "yn (row_get r ''Actively Hiring'') = Inr hiring"
    and e: "parse_emp_range (row_get r ''Number of Employees'') = Inr emp"
    and v: "parse_money_range_usd (row_get r ''Estimated Revenue Range'') = Inr rv"
    and m: "months_since (row_get r ''Last Funding Date'') = Inr m"
    and s: "(if \<not> no_key key
      then serpapi_fpna_count en w (strip (get_or_empty r ''Organization Name'')) key
      else Inr (None, [])) = Inr (ff, fev)"
    and j: "(if website_of r \<noteq> [] then scan_jobs_for_fpna en w (website_of r) else Inr (False, []))
       = Inr (jb, ev)"
    and t: "(if website_of r \<noteq> [] then stack_chain en w (website_of r) else Inr False) = Inr st1"
    and fe: "compute_flags_enriched en w r key = Inr (enriched_flags r hiring emp rv m ff jb st1)"
    by (rule compute_flags_enriched_parts)
  from assms fe have "fl = enriched_flags r hiring emp rv m ff jb st1" by simp
  moreover from m have "m = map_option months_between (parsed_date (row_get r ''Last Funding Date''))"
    by (simp add: months_since_parsed_date)
  ultimately show ?thesis
    by (cases emp; cases rv) (simp add: enriched_flags_def Let_def split: option.splits)
qed



text \<open>C4, as the code has it: for every record and both variants, when the funding date
  parses to year \<open>y\<close> and month \<open>m\<close>, \<open>months_since_raise\<close> is
  \<open>(2025 - y) * 12 + (10 - m)\<close>; it is non-negative exactly when the date is not after
  October 2025, and below the sentinel 9999 exactly when the date is after July 1192.
  When the funding date is missing or does not parse, it is the sentinel 9999. So the
  sentinel sorts strictly after every value from a parseable date later than July 1192.\<close>

theorem months_since_raise_value:
  assumes "compute_flags_local r = Inr fl \<or> compute_flags_enriched en w r key = Inr fl"
  shows "case parsed_date (row_get r ''Last Funding Date'') of
           Some d \<Rightarrow>
             months_since_raise fl = (2025 - int (f_year d)) * 12 + (10 - int (f_month d)) \<and>
             (0 \<le> months_since_raise fl) = (12 * f_year d + f_month d \<le> 12 * 2025 + 10) \<and>
             (months_since_raise fl < 9999) = (12 * 1192 + 7 < 12 * f_year d + f_month d)
         | None \<Rightarrow> months_since_raise fl = 9999"
proof -
  from assms have m: "months_since_raise fl =
     (case parsed_date (row_get r ''Last Funding Date'') of
        Some d \<Rightarrow> months_between d | None \<Rightarrow> 9999)"
    using months_local months_enriched by blast
  show ?thesis
  proof (cases "parsed_date (row_get r ''Last Funding Date'')")
    case None
    with m show ?thesis by simp
  next
    case (Some d)
    with m have "months_since_raise fl = (2025 - int (f_year d)) * 12 + (10 - int (f_month d))"
      by (simp add: months_between_def now_year_def now_month_def)
    with Some show ?thesis by auto
  qed
qed

lemma cx_future: "map_sum id months_since_raise
     (compute_flags_local (map_of [(''Last Funding Date'', ''2026-01-15'')])) = Inr (- 3)"
  by code_simp

lemma cx_old: "map_sum id months_since_raise
     (compute_flags_local (map_of [(''Last Funding Date'', ''1192-07-01'')])) = Inr 9999"
  by code_simp

lemma cx_older: "map_sum id months_since_raise
     (compute_flags_local (map_of [(''Last Funding Date'', ''1000-01-01'')])) = Inr 12309"
  by code_simp

lemma cx_parse: "parsed_date (PStr ''2026-01-15'') = Some \<lparr>f_year = 2026, f_month = 1, f_day = 15\<rparr>
  \<and> parsed_date (PStr ''1192-07-01'') = Some \<lparr>f_year = 1192, f_month = 7, f_day = 1\<rparr>
  \<and> parsed_date (PStr ''1000-01-01'') = Some \<lparr>f_year = 1000, f_month = 1, f_day = 1\<rparr>"
  by code_simp

theorem months_since_raise_value_witness:
  "parsed_date (row_get sample_row ''Last Funding Date'')
     = Some \<lparr>f_year = 2024, f_month = 10, f_day = 15\<rparr> \<and>
   map_sum id months_since_raise (compute_flags_local sample_row) = Inr 12 \<and>
   parsed_date (row_get Map.empty ''Last Funding Date'') = None \<and>
   map_sum id months_since_raise (compute_flags_local Map.empty) = Inr 9999"
  using months_since_raise_value [OF disjI1, OF sample_local_eval]
    months_since_raise_value [OF disjI1, OF empty_local_eval]
  by (simp add: sample_local_eval empty_local_eval sample_date_eval empty_date_eval)

text \<open>Where the claim as first stated fails: a funding date after the reference month
  parses and gives a negative number of months; the first of July 1192 parses and gives
  exactly the sentinel; an earlier date gives more than the sentinel.\<close>

theorem months_since_raise_counterexample:
  "parsed_date (PStr ''2026-01-15'') = Some \<lparr>f_year = 2026, f_month = 1, f_day = 15\<rparr> \<and>
   map_sum id months_since_raise
     (compute_flags_local (map_of [(''Last Funding Date'', ''2026-01-15'')])) = Inr (- 3) \<and>
   parsed_date (PStr ''1192-07-01'') = Some \<lparr>f_year = 1192, f_month = 7, f_day = 1\<rparr> \<and>
   map_sum id months_since_raise
     (compute_flags_local (map_of [(''Last Funding Date'', ''1192-07-01'')])) = Inr 9999 \<and>
   parsed_date (PStr ''1000-01-01'') = Some \<lparr>f_year = 1000, f_month = 1, f_day = 1\<rparr> \<and>
   map_sum id months_since_raise
     (compute_flags_local (map_of [(''Last Funding Date'', ''1000-01-01'')])) = Inr 12309"
  using cx_parse cx_future cx_old cx_older by simp

section \<open>Claims about the two variants\<close>





lemma mid_local:
  assumes "compute_flags_local r = Inr fl"
    and "parse_money_range_usd (row_get r ''Estimated Revenue Range'') = Inr (rev_min, rev_max)"
  shows "mid_ok fl = (if rev_min = None \<and> rev_max = None then size_ok fl
                      else overlaps_mid_market rev_min rev_max)"
proof -
  obtain hiring emp rv m where
    h: "yn (row_get r ''Actively Hiring'') = Inr hiring"
    and e: "parse_emp_range (row_get r ''Number of Employees'') = Inr emp"
    and v: "parse_money_range_usd (row_get r ''Estimated Revenue Range'') = Inr rv"
    and m: "months_since (row_get r ''Last Funding Date'') = Inr m"
    and fl: "compute_flags_local r = Inr (local_flags r hiring emp rv m)"
    by (rule compute_flags_local_parts)
  from v assms(2) have rv: "rv = (rev_min, rev_max)" by simp
  from assms(1) fl have "fl = local_flags r hiring emp rv m" by simp
  then show ?thesis unfolding rv
    by (cases emp)
       (auto simp: local_flags_def Let_def overlaps_mid_market_def split: option.splits)
qed

lemma mid_enriched:
  assumes "compute_flags_enriched en w r key = Inr fl"
    and "parse_money_range_usd (row_get r ''Estimated Revenue Range'') = Inr (rev_min, rev_max)"
  shows "mid_ok fl = (if rev_min = None \<and> rev_max = None then size_ok fl
                      else overlaps_mid_market rev_min rev_max)"
proof -
  obtain hiring emp rv m ff fev jb ev st1 where
    h: "yn (row_get r ''Actively Hiring'') = Inr hiring"
    and e: "parse_emp_range (row_get r ''Number of Employees'') = Inr emp"
    and v: "parse_money_range_usd (row_get r ''Estimated Revenue Range'') = Inr rv"
    and m: "months_since (row_get r ''Last Funding Date'') = Inr m"
    and s: "(if \<not> no_key key
      then serpapi_fpna_count en w (strip (get_or_empty r ''Organization Name'')) key
      else Inr (None, [])) = Inr (ff, fev)"
    and j: "(if website_of r \<noteq> [] then scan_jobs_for_fpna en w (website_of r) else Inr (False, []))
       = Inr (jb, ev)"
    and t: "(if website_of r \<noteq> [] then stack_chain en w (website_of r) else Inr False) = Inr st1"
    and fe: "compute_flags_enriched en w r key = Inr (enriched_flags r hiring emp rv m ff jb st1)"
    by (rule compute_flags_enriched_parts)
  from v assms(2) have rv: "rv = (rev_min, rev_max)" by simp
  from assms(1) fe have "fl = enriched_flags r hiring emp rv m ff jb st1" by simp
  then show ?thesis unfolding rv
    by (cases emp)
       (auto simp: enriched_flags_def Let_def overlaps_mid_market_def split: option.splits)
qed


lemma overlaps_mid_market_point:
  assumes "case rev_max of None \<Rightarrow> True | Some b \<Rightarrow> (case rev_min of None \<Rightarrow> 0 | Some a \<Rightarrow> a) \<le> b"
  shows "overlaps_mid_market rev_min rev_max =
     (\<exists>x. (case rev_min of None \<Rightarrow> 0 | Some a \<Rightarrow> a) \<le> x
          \<and> (case rev_max of None \<Rightarrow> True | Some b \<Rightarrow> x \<le> b)
          \<and> 50000000 \<le> x \<and> x \<le> 1000000000)"
proof -
  define lo where "lo = (case rev_min of None \<Rightarrow> 0 | Some a \<Rightarrow> a)"
  show ?thesis
  proof (cases rev_max)
    case None
    have "(lo \<le> 1000000000) = (\<exists>x. lo \<le> x \<and> 50000000 \<le> x \<and> x \<le> (1000000000::rat))"
    proof
      assume "lo \<le> 1000000000"
      then have "lo \<le> max lo 50000000 \<and> 50000000 \<le> max lo 50000000 \<and> max lo 50000000 \<le> (1000000000::rat)"
        by simp
      then show "\<exists>x. lo \<le> x \<and> 50000000 \<le> x \<and> x \<le> (1000000000::rat)" by blast
    next
      assume "\<exists>x. lo \<le> x \<and> 50000000 \<le> x \<and> x \<le> (1000000000::rat)"
      then show "lo \<le> 1000000000" by auto
    qed
    with None show ?thesis by (simp add: overlaps_mid_market_def lo_def)
  next
    case (Some b)
    with assms have lb: "lo \<le> b" by (simp add: lo_def)
    have "(lo \<le> 1000000000 \<and> 50000000 \<le> b) =
          (\<exists>x. lo \<le> x \<and> x \<le> b \<and> 50000000 \<le> x \<and> x \<le> (1000000000::rat))"
    proof
      assume h: "lo \<le> 1000000000 \<and> 50000000 \<le> b"
      with lb have "lo \<le> max lo 50000000 \<and> max lo 50000000 \<le> b \<and> 50000000 \<le> max lo 50000000
          \<and> max lo 50000000 \<le> (1000000000::rat)"
        by simp
      then show "\<exists>x. lo \<le> x \<and> x \<le> b \<and> 50000000 \<le> x \<and> x \<le> (1000000000::rat)" by blast
    next
      assume "\<exists>x. lo \<le> x \<and> x \<le> b \<and> 50000000 \<le> x \<and> x \<le> (1000000000::rat)"
      then show "lo \<le> 1000000000 \<and> 50000000 \<le> b" by auto
    qed
    with Some show ?thesis by (simp add: overlaps_mid_market_def lo_def)
  qed
qed

text \<open>C6: for every record and both variants, with \<open>(rev_min, rev_max)\<close> the parsed
  revenue range: when both bounds are unknown, \<open>mid_ok\<close> equals \<open>size_ok\<close>; otherwise
  \<open>mid_ok\<close> is true iff the range overlaps the band from 50,000,000 to 1,000,000,000,
  an unknown lower bound read as 0 and an unknown upper bound as unbounded (lower bound at
  most a billion and upper bound at least fifty million). For a range whose lower bound
  does not exceed its upper bound, this is the same as the range and the band having an
  amount in common.\<close>

theorem mid_ok_overlap:
  assumes "compute_flags_local r = Inr fl \<or> compute_flags_enriched en w r key = Inr fl"
    and "parse_money_range_usd (row_get r ''Estimated Revenue Range'') = Inr (rev_min, rev_max)"
  shows "(rev_min = None \<and> rev_max = None \<longrightarrow> mid_ok fl = size_ok fl) \<and>
         (rev_min \<noteq> None \<or> rev_max \<noteq> None \<longrightarrow>
            mid_ok fl = overlaps_mid_market rev_min rev_max \<and>
            ((case rev_max of None \<Rightarrow> True
              | Some b \<Rightarrow> (case rev_min of None \<Rightarrow> 0 | Some a \<Rightarrow> a) \<le> b) \<longrightarrow>
             mid_ok fl =
               (\<exists>x. (case rev_min of None \<Rightarrow> 0 | Some a \<Rightarrow> a) \<le> x
                    \<and> (case rev_max of None \<Rightarrow> True | Some b \<Rightarrow> x \<le> b)
                    \<and> 50000000 \<le> x \<and> x \<le> 1000000000)))"
proof -
  from assms have m: "mid_ok fl = (if rev_min = None \<and> rev_max = None then size_ok fl
                      else overlaps_mid_market rev_min rev_max)"
    using mid_local mid_enriched by blast
  show ?thesis
  proof (intro conjI impI)
    assume "rev_min = None \<and> rev_max = None"
    with m show "mid_ok fl = size_ok fl" by simp
  next
    assume "rev_min \<noteq> None \<or> rev_max \<noteq> None"
    with m show "mid_ok fl = overlaps_mid_market rev_min rev_max" by auto
  next
    assume a: "rev_min \<noteq> None \<or> rev_max \<noteq> None"
      and b: "case rev_max of None \<Rightarrow> True
              | Some b \<Rightarrow> (case rev_min of None \<Rightarrow> 0 | Some a \<Rightarrow> a) \<le> b"
    from a m have "mid_ok fl = overlaps_mid_market rev_min rev_max" by auto
    with overlaps_mid_market_point [OF b]
    show "mid_ok fl =
               (\<exists>x. (case rev_min of None \<Rightarrow> 0 | Some a \<Rightarrow> a) \<le> x
                    \<and> (case rev_max of None \<Rightarrow> True | Some b \<Rightarrow> x \<le> b)
                    \<and> 50000000 \<le> x \<and> x \<le> 1000000000)" by simp
  qed
qed

theorem mid_ok_overlap_witness:
  "parse_money_range_usd (row_get sample_row ''Estimated Revenue Range'') = Inr (Some 60000000, None) \<and>
   map_sum id mid_ok (compute_flags_local sample_row) = Inr True \<and>
   overlaps_mid_market (Some 60000000) None \<and>
   (\<exists>x::rat. 60000000 \<le> x \<and> 50000000 \<le> x \<and> x \<le> 1000000000)"
  using mid_ok_overlap [OF disjI1, OF sample_local_eval sample_revenue_eval]
  by (simp add: sample_local_eval sample_revenue_eval)

end
